theory Spec2Isabelle
  imports Complex_Main "HOL-Library.AList" "HOL-Library.Sublist"
begin

section \<open>Data model\<close>

text \<open>
  The viewer is glue code over pandas, geopandas, plotly and dash. Values that only
  those libraries look into are kept opaque: a geometry is its text form, a coordinate
  reference system its name, a dtype its name.
\<close>

type_synonym geometry = string
type_synonym crs = string
type_synonym dtype = string

text \<open>
  A value of one table cell, as it travels between the data frame and the grid; a finite
  float is carried by the number it stands for. The viewer never looks into a cell.
\<close>

datatype cell = NoneV | NaN | BoolV bool | IntV int | FloatV rat | StrV string

text \<open>
  Exceptions. \<open>LibraryError\<close> carries the class name of any exception that a
  library primitive raises.
\<close>

datatype py_error = ValueError | KeyError | LibraryError string

text \<open>
  What a dash callback can raise: \<open>exceptions.PreventUpdate\<close>, which dash reads as
  "leave the outputs alone", or an ordinary exception.
\<close>

datatype raised = PreventUpdate | Failure py_error

text \<open>
  \<open>gp.geodataframe.GeoDataFrame\<close>: the column labels in order (the geometry column
  among them), the dtype of each column, one entry per row giving the value under each
  attribute label, the geometry column (one entry per row, \<open>None\<close> where a row has no
  geometry) and the coordinate reference system. Rows are numbered from zero, as
  \<open>gp.read_file\<close> and \<open>pd.DataFrame\<close> number them.
\<close>

record geo_data_frame =
  df_columns :: "string list"
  df_dtype :: "string \<Rightarrow> dtype"
  df_rows :: "(string \<Rightarrow> cell) list"
  df_geometry :: "geometry option list"
  df_crs :: "crs option"

text \<open>\<open>pd.DataFrame\<close>: a table without geometry and reference system.\<close>

record data_frame_pd =
  pd_columns :: "string list"
  pd_dtype :: "string \<Rightarrow> dtype"
  pd_rows :: "(string \<Rightarrow> cell) list"

text \<open>The argument of \<open>gp.read_file\<close>: a path or URL string, or an \<open>io.StringIO\<close> buffer.\<close>

datatype content = Str string | StringIO string

subsection \<open>Figures and page components\<close>

record annotation =
  ann_x :: rat
  ann_y :: rat
  ann_xref :: string
  ann_yref :: string
  ann_text :: string
  ann_showarrow :: bool
  ann_align :: string
  ann_font_size :: nat

text \<open>
  \<open>go.Figure\<close>: the traces (opaque, one name each), the layout properties the viewer
  sets, and the annotations.
\<close>

record figure =
  fig_data :: "string list"
  fig_plot_bgcolor :: "string option"
  fig_xaxis_showticklabels :: "bool option"
  fig_yaxis_showticklabels :: "bool option"
  fig_annotations :: "annotation list"
  fig_geos :: "(string \<times> string) list"
  fig_margin :: "(string \<times> int) list"

text \<open>
  The dash components the callbacks build: \<open>html.P(children, id, style)\<close>,
  \<open>html.Br()\<close>, \<open>dash_table.DataTable(id, columns, data, editable)\<close> and
  \<open>dcc.Graph(id, figure)\<close>. A table column is the pair of its \<open>name\<close> and \<open>id\<close>;
  a table row is a dict from column name to cell, kept as an association list in
  insertion order.
\<close>

type_synonym table_row = "(string \<times> cell) list"

datatype component =
    P string "string option" "(string \<times> string) list"
  | Br
  | DataTable string "(string \<times> string) list option" "table_row list option" bool
  | Graph string figure

subsection \<open>Library primitives and the environment\<close>

text \<open>
  The functions of other packages that the viewer calls. Each is a parameter of the
  model; a primitive that can raise returns a sum.
  \<^item> \<open>urlparse\<close>: the \<open>scheme\<close> and \<open>netloc\<close> of \<open>urllib.parse.urlparse\<close>, which
    raises on some malformed URLs;
  \<^item> \<open>expanduser_absolute\<close>: \<open>str(Path(p).expanduser().absolute())\<close>;
  \<^item> \<open>read_file\<close>: \<open>gp.read_file\<close>;
  \<^item> \<open>b64decode\<close>: \<open>base64.b64decode\<close>, \<open>decode_utf8\<close>: \<open>bytes.decode("utf-8")\<close>;
  \<^item> \<open>infer_dtype\<close>: the dtype \<open>pd.DataFrame\<close> gives a column holding these cells;
  \<open>cast\<close>: the conversion of one cell that \<open>astype\<close> performs for a dtype;
  \<^item> \<open>values_cast\<close>: the conversion of one cell that \<open>frame.values\<close> performs when the
    columns of the frame have these dtypes (an array has one dtype for all columns);
  \<^item> \<open>to_json\<close>: \<open>json.loads(frame.to_json())\<close>;
  \<^item> \<open>choropleth\<close>: \<open>px.choropleth(frame, geojson, color, locations,
    color_continuous_scale, featureidkey)\<close>;
  \<^item> \<open>to_file\<close>: the text that \<open>frame.to_file(name, driver="GeoJSON")\<close> writes;
  \<^item> \<open>strftime_now\<close>: \<open>datetime.now().strftime("%Y%m%dT%H%M")\<close>.
\<close>

record library =
  urlparse :: "string \<Rightarrow> py_error + string \<times> string"
  expanduser_absolute :: "string \<Rightarrow> py_error + string"
  read_file :: "content \<Rightarrow> py_error + geo_data_frame"
  b64decode :: "string \<Rightarrow> py_error + string"
  decode_utf8 :: "string \<Rightarrow> py_error + string"
  infer_dtype :: "cell list \<Rightarrow> dtype"
  cast :: "dtype \<Rightarrow> cell \<Rightarrow> py_error + cell"
  values_cast :: "dtype list \<Rightarrow> cell \<Rightarrow> cell"
  to_json :: "geo_data_frame \<Rightarrow> py_error + string"
  choropleth ::
    "data_frame_pd \<Rightarrow> string \<Rightarrow> string \<Rightarrow> string \<Rightarrow> string \<Rightarrow> string \<Rightarrow> py_error + figure"
  to_file :: "geo_data_frame \<Rightarrow> py_error + string"
  strftime_now :: string

text \<open>
  \<open>GeoJsonFile\<close>, the dataclass holding the loaded file, and the state of the process:
  the module-level \<open>geo_json_obj\<close>, plus what the process has done to the outside so
  far: the arguments of its calls to \<open>gp.read_file\<close>, the data sets it has written with
  \<open>to_file\<close>, and the errors it has logged, each oldest first.
\<close>

record GeoJsonFile =
  data_frame :: "geo_data_frame option"

record state =
  geo_json_obj :: GeoJsonFile
  read_file_calls :: "content list"
  to_file_calls :: "geo_data_frame list"
  error_log :: "py_error list"

section \<open>utils.py\<close>

text \<open>
  A Python dict built from key-value pairs: a later pair with a key already present
  replaces the value and keeps the key's place.
\<close>

definition dict :: "('k \<times> 'v) list \<Rightarrow> ('k \<times> 'v) list" where
  "dict kvs = foldl (\<lambda>d (k, v). AList.update k v d) [] kvs"

text \<open>
  \<open>self.data_frame[columns].values\<close>: selecting a label that is not a column raises
  \<open>KeyError\<close>; otherwise one list of values per row, each value converted to the one
  dtype of the array.
\<close>

definition frame_values ::
  "library \<Rightarrow> geo_data_frame \<Rightarrow> string list \<Rightarrow> py_error + cell list list" where
  "frame_values L df cols =
     (if set cols \<subseteq> set (df_columns df)
      then Inr (map (\<lambda>line. map (\<lambda>c. values_cast L (map (df_dtype df) cols) (line c)) cols)
                 (df_rows df))
      else Inl KeyError)"

definition dash_data_table_from_dataframe ::
  "library \<Rightarrow> GeoJsonFile \<Rightarrow> string list \<Rightarrow> py_error + table_row list" where
  "dash_data_table_from_dataframe L self cols =
     (case data_frame self of
        None \<Rightarrow> Inr []
      | Some df \<Rightarrow>
          (case frame_values L df cols of
             Inl e \<Rightarrow> Inl e
           | Inr vals \<Rightarrow> Inr (map (\<lambda>line. dict (zip cols line)) vals)))"

definition columns :: "GeoJsonFile \<Rightarrow> string list" where
  "columns self =
     (case data_frame self of
        None \<Rightarrow> []
      | Some df \<Rightarrow> filter (\<lambda>c. c \<noteq> ''geometry'') (df_columns df))"

definition dtypes :: "GeoJsonFile \<Rightarrow> (string \<times> dtype) list" where
  "dtypes self =
     (case data_frame self of
        None \<Rightarrow> []
      | Some df \<Rightarrow> dict (map (\<lambda>c. (c, df_dtype df c)) (columns self)))"

definition to_viewbox :: "library \<Rightarrow> GeoJsonFile \<Rightarrow> py_error + component list" where
  "to_viewbox L self =
     (case data_frame self of
        None \<Rightarrow>
          Inr [P ''Load geojson file in the display tab first'' None [(''color'', ''red'')],
               Br,
               DataTable ''table'' None None False]
      | Some df \<Rightarrow>
          (let cols = filter (\<lambda>c. c \<noteq> ''geometry'') (df_columns df)
           in case dash_data_table_from_dataframe L self cols of
                Inl e \<Rightarrow> Inl e
              | Inr rows \<Rightarrow>
                  Inr [P ''To edit: click cells, adjust and press enter'' None [],
                       Br,
                       DataTable ''table'' (Some (map (\<lambda>c. (c, c)) cols)) (Some rows) True]))"

text \<open>
  \<open>str.split(",")\<close>: the pieces between the separators, so one more piece than there
  are separators.
\<close>

fun str_split :: "char \<Rightarrow> string \<Rightarrow> string list" where
  "str_split sep [] = [[]]"
| "str_split sep (c # cs) =
     (if c = sep then [] # str_split sep cs
      else (case str_split sep cs of
              [] \<Rightarrow> [[c]]
            | p # ps \<Rightarrow> (c # p) # ps))"

text \<open>
  \<open>_, content_string = content.split(",")\<close> unpacks exactly two pieces and raises
  \<open>ValueError\<close> on any other number.
\<close>

definition read_upload_content :: "library \<Rightarrow> string \<Rightarrow> py_error + string" where
  "read_upload_content L content =
     (case str_split CHR '','' content of
        [_, content_string] \<Rightarrow>
          (case b64decode L content_string of
             Inl e \<Rightarrow> Inl e
           | Inr bytes \<Rightarrow> decode_utf8 L bytes)
      | _ \<Rightarrow> Inl ValueError)"

text \<open>
  \<open>str.strip()\<close>: drops the white space at both ends. The white space characters of
  Python below code point 256 are 9 to 13, 28 to 32, 133 and 160.
\<close>

definition isspace :: "char \<Rightarrow> bool" where
  "isspace c =
     (let n = of_char c :: nat
      in (9 \<le> n \<and> n \<le> 13) \<or> (28 \<le> n \<and> n \<le> 32) \<or> n = 133 \<or> n = 160)"

definition str_strip :: "string \<Rightarrow> string" where
  "str_strip s = rev (dropWhile isspace (rev (dropWhile isspace s)))"

text \<open>The call of \<open>gp.read_file\<close>: its argument is recorded in the state.\<close>

definition gp_read_file ::
  "library \<Rightarrow> state \<Rightarrow> content \<Rightarrow> (py_error + geo_data_frame) \<times> state" where
  "gp_read_file L s c = (read_file L c, s\<lparr>read_file_calls := read_file_calls s @ [c]\<rparr>)"

text \<open>
  \<open>content\<close> starts as the empty string, is replaced when one of the two arguments is
  given, and is passed to \<open>gp.read_file\<close> in every case.
\<close>

definition load_geojson ::
  "library \<Rightarrow> state \<Rightarrow> string option \<Rightarrow> string option \<Rightarrow> (py_error + geo_data_frame) \<times> state" where
  "load_geojson L s inp_path upload_content =
     (case inp_path of
        Some p \<Rightarrow>
          (let content = str_strip p
           in case urlparse L content of
                Inl e \<Rightarrow> (Inl e, s)
              | Inr (scheme, netloc) \<Rightarrow>
                  if netloc = [] \<and> scheme = []
                  then (case expanduser_absolute L content of
                          Inl e \<Rightarrow> (Inl e, s)
                        | Inr path \<Rightarrow> gp_read_file L s (Str path))
                  else gp_read_file L s (Str content))
      | None \<Rightarrow>
          (case upload_content of
             Some u \<Rightarrow>
               (case read_upload_content L u of
                  Inl e \<Rightarrow> (Inl e, s)
                | Inr txt \<Rightarrow> gp_read_file L s (StringIO txt))
           | None \<Rightarrow> gp_read_file L s (Str [])))"

section \<open>server.py\<close>

definition default_text :: string where
  "default_text = ''Choose 2 columns and click the view button to compare.''"

text \<open>
  \<open>go.Figure({})\<close>: the empty dict is read as one trace with nothing set, which plotly
  makes a scatter trace; no layout property is set.
\<close>

definition empty_figure :: figure where
  "empty_figure =
     \<lparr>fig_data = [''scatter''], fig_plot_bgcolor = None, fig_xaxis_showticklabels = None,
      fig_yaxis_showticklabels = None, fig_annotations = [], fig_geos = [], fig_margin = []\<rparr>"

text \<open>
  \<open>_clear_fig(fig, text)\<close>: styles a copy of the given figure (an empty one when none
  is given) and adds one centred annotation holding \<open>text\<close>.
\<close>

definition clear_fig :: "figure option \<Rightarrow> string \<Rightarrow> figure" where
  "clear_fig fig txt =
     (let fig0 = (case fig of None \<Rightarrow> empty_figure | Some f \<Rightarrow> f)
      in fig0\<lparr>fig_plot_bgcolor := Some ''white'',
              fig_xaxis_showticklabels := Some False,
              fig_yaxis_showticklabels := Some False,
              fig_annotations := fig_annotations fig0 @
                [\<lparr>ann_x = 1 / 2, ann_y = 1 / 2, ann_xref = ''paper'', ann_yref = ''paper'',
                  ann_text = txt, ann_showarrow = False, ann_align = ''center'',
                  ann_font_size = 16\<rparr>]\<rparr>)"

text \<open>
  The ids of the components whose events run \<open>create_columns\<close>; \<open>ctx.triggered_id\<close> is
  one of them, or \<open>None\<close> on the call at start-up.
\<close>

datatype component_id = upload | reset_button | load_button

text \<open>The seven outputs of \<open>create_columns\<close>, in the order of its \<open>Output\<close> list.\<close>

record create_columns_out =
  column1_options :: "string list"
  loading1_children :: component
  table_box_children :: "component list"
  reset_button_disabled :: bool
  save_button_disabled :: bool
  geojson_file_value :: string
  graph_box_children :: "component list"

definition create_columns ::
  "library \<Rightarrow> state \<Rightarrow> string option \<Rightarrow> string option \<Rightarrow> component_id option
     \<Rightarrow> (py_error + create_columns_out) \<times> state" where
  "create_columns L s geojson_file upload_content triggered_id =
     (if geojson_file = None \<and> upload_content = None then
        (case to_viewbox L (geo_json_obj s) of
           Inl e \<Rightarrow> (Inl e, s)
         | Inr viewbox \<Rightarrow>
             (Inr \<lparr>column1_options = [],
                   loading1_children = P [] (Some ''load-status'') [],
                   table_box_children = viewbox,
                   reset_button_disabled = True,
                   save_button_disabled = True,
                   geojson_file_value = [],
                   graph_box_children = [Graph ''graph'' (clear_fig None default_text)]\<rparr>, s))
      else
        (let (geojson_file1, status_msg, s1) =
               (if triggered_id = Some load_button \<or> upload_content \<noteq> None then
                  (let (geojson_file0, upload_content0) =
                         (if triggered_id = Some load_button then (geojson_file, None)
                          else (None, upload_content));
                       s0 = s\<lparr>geo_json_obj := \<lparr>data_frame = None\<rparr>\<rparr>
                   in case load_geojson L s0 geojson_file0 upload_content0 of
                        (Inr df, s') \<Rightarrow>
                          (geojson_file0, [], s'\<lparr>geo_json_obj := \<lparr>data_frame = Some df\<rparr>\<rparr>)
                      | (Inl error, s') \<Rightarrow>
                          (geojson_file0, ''Error: Could not load data content'',
                           s'\<lparr>error_log := error_log s' @ [error]\<rparr>))
                else (geojson_file, [], s));
             (cols, disable_button) =
               (case data_frame (geo_json_obj s1) of
                  None \<Rightarrow> ([], True)
                | Some df \<Rightarrow> (filter (\<lambda>c. c \<noteq> ''geometry'') (df_columns df), False))
         in case to_viewbox L (geo_json_obj s1) of
              Inl e \<Rightarrow> (Inl e, s1)
            | Inr viewbox \<Rightarrow>
                (Inr \<lparr>column1_options = cols,
                      loading1_children = P status_msg (Some ''load-status'') [(''color'', ''red'')],
                      table_box_children = viewbox,
                      reset_button_disabled = disable_button,
                      save_button_disabled = disable_button,
                      geojson_file_value = (case geojson_file1 of None \<Rightarrow> [] | Some f \<Rightarrow> f),
                      graph_box_children = [Graph ''graph'' (clear_fig None default_text)]\<rparr>,
                 s1)))"

text \<open>
  \<open>pd.DataFrame(table_data)\<close> for a list of dicts: the columns are the keys in the order
  in which they first appear, every dict is one row, and a key that a dict lacks is
  \<open>NaN\<close> in its row.
\<close>

definition DataFrame :: "library \<Rightarrow> table_row list \<Rightarrow> data_frame_pd" where
  "DataFrame L table_data =
     (let rows = map (\<lambda>r c. case map_of r c of None \<Rightarrow> NaN | Some v \<Rightarrow> v) table_data
      in \<lparr>pd_columns = rev (remdups (rev (concat (map (map fst) table_data)))),
          pd_dtype = (\<lambda>c. infer_dtype L (map (\<lambda>r. r c) rows)),
          pd_rows = rows\<rparr>)"

text \<open>
  \<open>frame.astype(dtypes)\<close> with a dict: a key that is not a column raises \<open>KeyError\<close>;
  otherwise the columns are converted one after the other, in the order of the frame,
  each cell of a column with an entry to the dtype of the entry, and the first cell that
  cannot be converted raises. The number of rows stays.
\<close>

fun cast_column ::
  "library \<Rightarrow> dtype \<Rightarrow> string \<Rightarrow> (string \<Rightarrow> cell) list \<Rightarrow> py_error + (string \<Rightarrow> cell) list" where
  "cast_column L d c [] = Inr []"
| "cast_column L d c (r # rs) =
     (case cast L d (r c) of
        Inl e \<Rightarrow> Inl e
      | Inr v \<Rightarrow>
          (case cast_column L d c rs of
             Inl e \<Rightarrow> Inl e
           | Inr rs' \<Rightarrow> Inr (r(c := v) # rs')))"

fun cast_columns ::
  "library \<Rightarrow> (string \<times> dtype) list \<Rightarrow> string list \<Rightarrow> (string \<Rightarrow> cell) list
     \<Rightarrow> py_error + (string \<Rightarrow> cell) list" where
  "cast_columns L dts [] rows = Inr rows"
| "cast_columns L dts (c # cs) rows =
     (case map_of dts c of
        None \<Rightarrow> cast_columns L dts cs rows
      | Some d \<Rightarrow>
          (case cast_column L d c rows of
             Inl e \<Rightarrow> Inl e
           | Inr rows' \<Rightarrow> cast_columns L dts cs rows'))"

definition astype ::
  "library \<Rightarrow> data_frame_pd \<Rightarrow> (string \<times> dtype) list \<Rightarrow> py_error + data_frame_pd" where
  "astype L frame dts =
     (if set (map fst dts) \<subseteq> set (pd_columns frame) then
        (case cast_columns L dts (pd_columns frame) (pd_rows frame) of
           Inl e \<Rightarrow> Inl e
         | Inr rows \<Rightarrow>
             Inr (frame\<lparr>pd_dtype := (\<lambda>c. case map_of dts c of None \<Rightarrow> pd_dtype frame c
                                                | Some d \<Rightarrow> d),
                        pd_rows := rows\<rparr>))
      else Inl KeyError)"

text \<open>
  What \<open>display_choropleth\<close> returns: the pair of a figure and the text of the loading
  sign, or, in one branch, a figure alone. The two innermost default cases of the
  function stand for selections that the tests before them have already sent away.
\<close>

datatype view_out = Fig_status figure string | Fig figure

text \<open>
  \<open>frame[[color, location, "geometry"]]\<close>: \<open>KeyError\<close> when a label is not a column,
  otherwise the frame cut down to these columns.
\<close>

definition frame_select :: "geo_data_frame \<Rightarrow> string list \<Rightarrow> py_error + geo_data_frame" where
  "frame_select df cols =
     (if set cols \<subseteq> set (df_columns df) then Inr (df\<lparr>df_columns := cols\<rparr>)
      else Inl KeyError)"

definition display_choropleth ::
  "library \<Rightarrow> state \<Rightarrow> string option list option \<Rightarrow> table_row list
     \<Rightarrow> (py_error + view_out) \<times> state" where
  "display_choropleth L s cols table_data =
     (case cols of
        None \<Rightarrow> (Inr (Fig_status (clear_fig None default_text) []), s)
      | Some cs \<Rightarrow>
          if length cs \<noteq> 2 \<or> data_frame (geo_json_obj s) = None then
            (Inr (Fig_status (clear_fig None default_text) []), s)
          else if length cs > 2 then
            (Inr (Fig (clear_fig None ''You should select only 2 data keys.'')), s)
          else
            (case cs of
               [c0, c1] \<Rightarrow>
                 if c0 = None \<or> c1 = None \<or> c0 = c1 then
                   (Inr (Fig_status (clear_fig None default_text) []), s)
                 else if c0 = c1 then
                   (Inr (Fig_status (clear_fig None ''Columns must be different'') []), s)
                 else
                   (case (c0, c1, data_frame (geo_json_obj s)) of
                      (Some location, Some color, Some df) \<Rightarrow>
                        (case astype L (DataFrame L table_data) (dtypes (geo_json_obj s)) of
                           Inl e \<Rightarrow> (Inl e, s)
                         | Inr frame \<Rightarrow>
                             (case (case frame_select df [color, location, ''geometry''] of
                                      Inl e \<Rightarrow> Inl e
                                    | Inr sub \<Rightarrow> to_json L sub) of
                                Inl KeyError \<Rightarrow>
                                  (Inr (Fig_status (clear_fig None default_text) []), s)
                              | Inl e \<Rightarrow> (Inl e, s)
                              | Inr geojson \<Rightarrow>
                                  (case choropleth L frame geojson color location ''Viridis''
                                          (''properties.'' @ location) of
                                     Inl e \<Rightarrow> (Inl e, s)
                                   | Inr fig \<Rightarrow>
                                       (Inr (Fig_status
                                          (fig\<lparr>fig_geos :=
                                                  AList.update ''fitbounds'' ''locations''
                                                    (AList.update ''projection_type''
                                                       ''orthographic'' (fig_geos fig)),
                                               fig_margin :=
                                                  AList.update ''b'' 0 (AList.update ''l'' 0
                                                    (AList.update ''t'' 0 (AList.update ''r'' 0
                                                       (fig_margin fig))))\<rparr>) []), s))))
                    | _ \<Rightarrow> (Inr (Fig_status (clear_fig None default_text) []), s))
             | _ \<Rightarrow> (Inr (Fig_status (clear_fig None default_text) []), s)))"

text \<open>
  \<open>gp.GeoDataFrame(frame, geometry=g, crs=c)\<close> with a geometry column \<open>g\<close> taken from
  another frame: \<open>g\<close> is assigned as the column \<open>geometry\<close> of the table (a new last
  column unless a column of that name is there, whose cells it replaces), and the
  assignment aligns \<open>g\<close> on the row numbers of the table. Row \<open>i\<close> of the table gets entry
  \<open>i\<close> of \<open>g\<close>, a row beyond the end of \<open>g\<close> gets no geometry, and the entries of \<open>g\<close>
  beyond the last row are dropped. A table without any row takes the rows of \<open>g\<close>
  instead, each without attribute values.
\<close>

definition GeoDataFrame ::
  "data_frame_pd \<Rightarrow> geometry option list \<Rightarrow> crs option \<Rightarrow> geo_data_frame" where
  "GeoDataFrame frame g c =
     (let rows = (if pd_rows frame = [] then replicate (length g) (\<lambda>c. NaN) else pd_rows frame)
      in \<lparr>df_columns = (if ''geometry'' \<in> set (pd_columns frame) then pd_columns frame
                         else pd_columns frame @ [''geometry'']),
          df_dtype = (pd_dtype frame)(''geometry'' := ''geometry''),
          df_rows = map (\<lambda>r. r(''geometry'' := NoneV)) rows,
          df_geometry = take (length rows) g @ replicate (length rows - length g) None,
          df_crs = c\<rparr>)"

text \<open>\<open>frame["geometry"]\<close>: the geometry column, \<open>KeyError\<close> when there is none.\<close>

definition frame_geometry :: "geo_data_frame \<Rightarrow> py_error + geometry option list" where
  "frame_geometry df =
     (if ''geometry'' \<in> set (df_columns df) then Inr (df_geometry df) else Inl KeyError)"

record download =
  dl_content :: string
  dl_filename :: string

text \<open>
  \<open>save_data\<close> never reads \<open>table_columns\<close>. The data set it writes is recorded in the
  state before the writer runs.
\<close>

definition save_data ::
  "library \<Rightarrow> state \<Rightarrow> table_row list \<Rightarrow> (string \<times> string) list \<Rightarrow> (raised + download) \<times> state" where
  "save_data L s table_data table_columns =
     (case data_frame (geo_json_obj s) of
        None \<Rightarrow> (Inl PreventUpdate, s)
      | Some df \<Rightarrow>
          (case astype L (DataFrame L table_data) (dtypes (geo_json_obj s)) of
             Inl e \<Rightarrow> (Inl (Failure e), s)
           | Inr frame \<Rightarrow>
               (case frame_geometry df of
                  Inl e \<Rightarrow> (Inl (Failure e), s)
                | Inr g \<Rightarrow>
                    (let gdf = GeoDataFrame frame g (df_crs df);
                         s' = s\<lparr>to_file_calls := to_file_calls s @ [gdf]\<rparr>
                     in case to_file L gdf of
                          Inl e \<Rightarrow> (Inl (Failure e), s')
                        | Inr txt \<Rightarrow>
                            (Inr \<lparr>dl_content = txt,
                                  dl_filename = ''geojsonviewer-'' @ strftime_now L @ ''.geojson''\<rparr>,
                             s')))))"

text \<open>At import time \<open>geo_json_obj = GeoJsonFile()\<close> holds no data frame.\<close>

definition initial_state :: state where
  "initial_state =
     \<lparr>geo_json_obj = \<lparr>data_frame = None\<rparr>, read_file_calls = [], to_file_calls = [],
      error_log = []\<rparr>"

section \<open>A sample environment\<close>

text \<open>
  One environment on which the model can be run: a data set of two features with the
  attributes \<open>name\<close> and \<open>pop\<close>, found at one path and in one uploaded text; a base64
  decoder that drops the characters outside the base64 alphabet, as
  \<open>base64.b64decode\<close> does, and knows the encoding of one text; a conversion to
  \<open>int64\<close> that takes integers only, and to any other dtype that keeps the cell.
\<close>

definition sample_frame :: geo_data_frame where
  "sample_frame =
     \<lparr>df_columns = [''name'', ''pop'', ''geometry''],
      df_dtype = (\<lambda>c. if c = ''pop'' then ''int64'' else ''object''),
      df_rows = [(\<lambda>c. if c = ''name'' then StrV ''A'' else if c = ''pop'' then IntV 3 else NoneV),
                 (\<lambda>c. if c = ''name'' then StrV ''B'' else if c = ''pop'' then IntV 5 else NoneV)],
      df_geometry = [Some ''POINT (0 0)'', Some ''POINT (1 1)''],
      df_crs = Some ''EPSG:4326''\<rparr>"

definition sample_library :: library where
  "sample_library =
     \<lparr>urlparse = (\<lambda>u. if take 8 u = ''https://'' then Inr (''https'', drop 8 u) else Inr ([], [])),
      expanduser_absolute = (\<lambda>p. Inr (''/home/user/'' @ p)),
      read_file =
        (\<lambda>c. if c = Str ''/home/user/towns.geojson'' \<or> c = StringIO ''{towns}''
             then Inr sample_frame else Inl (LibraryError ''DriverError'')),
      b64decode =
        (\<lambda>t. if filter (\<lambda>c. c \<in> set
                   ''ABCDEFGHIJKLMNOPQRSTUVWXYZabcdefghijklmnopqrstuvwxyz0123456789+/='') t
                 = ''e3Rvd25zfQ==''
             then Inr ''{towns}'' else Inl (LibraryError ''binascii.Error'')),
      decode_utf8 = Inr,
      infer_dtype = (\<lambda>cells. if list_all (\<lambda>v. case v of IntV i \<Rightarrow> True | _ \<Rightarrow> False) cells
                           then ''int64'' else ''object''),
      cast = (\<lambda>d v. if d = ''int64''
                    then (case v of IntV i \<Rightarrow> Inr (IntV i) | _ \<Rightarrow> Inl ValueError)
                    else Inr v),
      values_cast = (\<lambda>dts v. v),
      to_json = (\<lambda>df. Inr ''{geojson}''),
      choropleth = (\<lambda>frame geojson color locations scale key. Inr empty_figure),
      to_file = (\<lambda>df. Inr ''{FeatureCollection}''),
      strftime_now = ''20221001T1200''\<rparr>"

definition sample_loaded :: state where
  "sample_loaded = initial_state\<lparr>geo_json_obj := \<lparr>data_frame = Some sample_frame\<rparr>\<rparr>"

section \<open>Properties\<close>

lemma to_viewbox_never_raises: "\<exists>v. to_viewbox L self = Inr v"
  by (auto simp: to_viewbox_def dash_data_table_from_dataframe_def frame_values_def Let_def
           split: option.splits)

text \<open>
  Claim C10. When no data set is loaded, each derived accessor of the document holder
  returns its empty value and raises nothing: \<open>columns\<close> the empty list, \<open>dtypes\<close> the
  empty dict, \<open>dash_data_table_from_dataframe\<close> the empty list of rows, whatever columns
  are asked for.
\<close>

theorem accessors_without_dataset:
  "columns \<lparr>data_frame = None\<rparr> = [] \<and>
   dtypes \<lparr>data_frame = None\<rparr> = [] \<and>
   dash_data_table_from_dataframe L \<lparr>data_frame = None\<rparr> cols = Inr []"
  by (simp add: columns_def dtypes_def dash_data_table_from_dataframe_def)

text \<open>
  Claim C6. A save event with no document loaded raises \<open>PreventUpdate\<close>: no download
  is produced, the signal is not a failure, and the state is the one before the event.
\<close>

theorem save_without_document:
  assumes "data_frame (geo_json_obj s) = None"
  shows "save_data L s table_data table_columns = (Inl PreventUpdate, s) \<and>
         (\<forall>e. fst (save_data L s table_data table_columns) \<noteq> Inl (Failure e)) \<and>
         (\<forall>d. fst (save_data L s table_data table_columns) \<noteq> Inr d)"
  using assms by (simp add: save_data_def)

theorem save_without_document_witness:
  "data_frame (geo_json_obj initial_state) = None \<and>
   save_data sample_library initial_state [[(''name'', StrV ''A'')]] [(''name'', ''name'')]
     = (Inl PreventUpdate, initial_state)"
proof -
  have h: "data_frame (geo_json_obj initial_state) = None"
    by (simp add: initial_state_def)
  from save_without_document [OF h] h show ?thesis
    by blast
qed

text \<open>
  Claim C3. The claim asks for the "choose only 2" text when more than two columns are
  selected. The first test of \<open>display_choropleth\<close> already sends every selection whose
  length is not two to the idle figure, so the branch holding that text is never
  reached: with three columns selected the annotation is the default prompt.
\<close>

theorem view_three_columns:
  "display_choropleth L s (Some [Some ''name'', Some ''pop'', Some ''area'']) table_data
     = (Inr (Fig_status (clear_fig None default_text) []), s) \<and>
   map ann_text (fig_annotations (clear_fig None default_text))
     = [''Choose 2 columns and click the view button to compare.'']"
  by (simp add: display_choropleth_def clear_fig_def empty_figure_def default_text_def)

theorem view_three_columns_witness:
  "display_choropleth sample_library sample_loaded
     (Some [Some ''name'', Some ''pop'', Some ''area''])
     [[(''name'', StrV ''A''), (''pop'', IntV 3)]]
     = (Inr (Fig_status (clear_fig None default_text) []), sample_loaded)"
  using view_three_columns [of sample_library sample_loaded "[[(''name'', StrV ''A''), (''pop'', IntV 3)]]"]
  by simp

text \<open>
  Claim C4, as stated: the idle figure is unannotated. It is not: \<open>_clear_fig\<close> always
  adds one annotation, so no figure returned for a null selection has an empty
  annotation list.
\<close>

theorem view_idle_counterexample:
  "\<not> (\<exists>fig msg. fst (display_choropleth sample_library initial_state None [])
                     = Inr (Fig_status fig msg) \<and> fig_annotations fig = [])"
  by (simp add: display_choropleth_def clear_fig_def empty_figure_def)

lemma two_entries:
  assumes "length cs = 2"
  obtains c0 c1 where "cs = [c0, c1]"
  using assms by (cases cs; cases "tl cs") auto

text \<open>
  Claim C4, amended. When the selection is null, has fewer than two entries, contains a
  null entry or names a column twice, the view handler returns the idle figure, whose
  only annotation holds the default prompt, with an empty loading text; the state is
  unchanged and repeating the event gives the same result.
\<close>

theorem view_idle:
  assumes "cols = None \<or>
           (\<exists>cs. cols = Some cs \<and> (length cs < 2 \<or> None \<in> set cs \<or> \<not> distinct cs))"
  shows "display_choropleth L s cols table_data
           = (Inr (Fig_status (clear_fig None default_text) []), s) \<and>
         map ann_text (fig_annotations (clear_fig None default_text)) = [default_text] \<and>
         display_choropleth L (snd (display_choropleth L s cols table_data)) cols table_data
           = display_choropleth L s cols table_data"
proof -
  have idle: "display_choropleth L s cols table_data
                = (Inr (Fig_status (clear_fig None default_text) []), s)"
  proof (cases cols)
    case None
    then show ?thesis by (simp add: display_choropleth_def)
  next
    case (Some cs)
    with assms have bad: "length cs < 2 \<or> None \<in> set cs \<or> \<not> distinct cs" by simp
    show ?thesis
    proof (cases "length cs = 2")
      case False
      with Some show ?thesis by (simp add: display_choropleth_def)
    next
      case True
      then obtain c0 c1 where cs: "cs = [c0, c1]" by (rule two_entries)
      with bad have "c0 = None \<or> c1 = None \<or> c0 = c1" by auto
      with Some cs show ?thesis by (auto simp add: display_choropleth_def)
    qed
  qed
  moreover have "map ann_text (fig_annotations (clear_fig None default_text)) = [default_text]"
    by (simp add: clear_fig_def empty_figure_def)
  ultimately show ?thesis by simp
qed

theorem view_idle_witness:
  "(Some [Some ''name'', Some ''name''] = None \<or>
     (\<exists>cs. Some [Some ''name'', Some ''name''] = Some cs \<and>
        (length cs < 2 \<or> None \<in> set cs \<or> \<not> distinct cs))) \<and>
   display_choropleth sample_library sample_loaded (Some [Some ''name'', Some ''name'']) []
     = (Inr (Fig_status (clear_fig None default_text) []), sample_loaded)"
proof -
  have h: "Some [Some ''name'', Some ''name''] = None \<or>
     (\<exists>cs. Some [Some ''name'', Some ''name''] = Some cs \<and>
        (length cs < 2 \<or> None \<in> set cs \<or> \<not> distinct cs))"
    by simp
  from view_idle [OF h] h show ?thesis by blast
qed

text \<open>
  Claim C7, as stated: with both arguments null the loader makes no call to the reading
  primitive. It does: \<open>content\<close> keeps its initial value, the empty string, and
  \<open>gp.read_file\<close> is called with it; in the sample environment that call raises.
\<close>

theorem load_nothing_counterexample:
  "read_file_calls initial_state = [] \<and>
   read_file_calls (snd (load_geojson sample_library initial_state None None)) = [Str []] \<and>
   fst (load_geojson sample_library initial_state None None) = Inl (LibraryError ''DriverError'')"
  by (simp add: load_geojson_def gp_read_file_def initial_state_def sample_library_def)

text \<open>
  Claim C7, amended. With both arguments null the loader calls the reading primitive
  exactly once, with the empty string, and its outcome is the outcome of that call: the
  loader raises nothing of its own.
\<close>

theorem load_nothing_reads_empty_string:
  "load_geojson L s None None
     = (read_file L (Str []), s\<lparr>read_file_calls := read_file_calls s @ [Str []]\<rparr>)"
  by (simp add: load_geojson_def gp_read_file_def)

theorem load_nothing_reads_empty_string_witness:
  "load_geojson sample_library initial_state None None
     = (Inl (LibraryError ''DriverError''), initial_state\<lparr>read_file_calls := [Str []]\<rparr>)"
  using load_nothing_reads_empty_string [of sample_library initial_state]
  by (simp add: sample_library_def initial_state_def)

text \<open>
  Claim C8, as stated: a payload with further separators is decoded from everything
  after the first one. Here the remainder after the first comma decodes to a text, yet
  \<open>read_upload_content\<close> raises \<open>ValueError\<close>: the split yields three pieces and the
  unpacking takes exactly two.
\<close>

theorem upload_two_separators_counterexample:
  "read_upload_content sample_library ''data:application/json;base64,e3Rvd25zfQ==,'' = Inl ValueError \<and>
   (case b64decode sample_library ''e3Rvd25zfQ==,'' of
      Inl e \<Rightarrow> Inl e | Inr bytes \<Rightarrow> decode_utf8 sample_library bytes) = Inr ''{towns}''"
  by (simp add: read_upload_content_def sample_library_def)

lemma str_split_no_sep: "sep \<notin> set t \<Longrightarrow> str_split sep t = [t]"
  by (induction t) auto

lemma str_split_first_sep:
  "sep \<notin> set pre \<Longrightarrow> str_split sep (pre @ sep # rest) = pre # str_split sep rest"
  by (induction pre) auto

lemma str_split_not_Nil: "str_split sep t \<noteq> []"
  by (induction t) (auto split: list.splits)

lemma length_str_split: "length (str_split sep t) = Suc (count_list t sep)"
proof (induction t)
  case Nil
  show ?case by simp
next
  case (Cons c cs)
  then show ?case
    using str_split_not_Nil [of sep cs] by (cases "str_split sep cs") auto
qed

text \<open>
  Claim C8, amended. A payload with exactly one comma is cut at it, the part before is
  dropped, the part after is base64-decoded and the bytes are decoded as UTF-8. A payload
  with no comma or with more than one raises \<open>ValueError\<close> and nothing is decoded.
\<close>

theorem upload_one_separator:
  "(CHR '','' \<notin> set pre \<and> CHR '','' \<notin> set rest \<longrightarrow>
      read_upload_content L (pre @ CHR '','' # rest)
        = (case b64decode L rest of Inl e \<Rightarrow> Inl e | Inr bytes \<Rightarrow> decode_utf8 L bytes)) \<and>
   (count_list content CHR '','' \<noteq> 1 \<longrightarrow> read_upload_content L content = Inl ValueError)"
proof (intro conjI impI)
  assume "CHR '','' \<notin> set pre \<and> CHR '','' \<notin> set rest"
  then have "str_split CHR '','' (pre @ CHR '','' # rest) = [pre, rest]"
    by (simp add: str_split_first_sep str_split_no_sep)
  then show "read_upload_content L (pre @ CHR '','' # rest)
        = (case b64decode L rest of Inl e \<Rightarrow> Inl e | Inr bytes \<Rightarrow> decode_utf8 L bytes)"
    by (simp add: read_upload_content_def)
next
  assume "count_list content CHR '','' \<noteq> 1"
  then have "length (str_split CHR '','' content) \<noteq> 2"
    by (simp add: length_str_split)
  then show "read_upload_content L content = Inl ValueError"
    by (auto simp add: read_upload_content_def split: list.splits)
qed

theorem upload_one_separator_witness:
  "(CHR '','' \<notin> set ''data:application/json;base64'' \<and> CHR '','' \<notin> set ''e3Rvd25zfQ=='') \<and>
   read_upload_content sample_library (''data:application/json;base64'' @ CHR '','' # ''e3Rvd25zfQ=='')
     = Inr ''{towns}'' \<and>
   count_list ''e3Rvd25zfQ=='' CHR '','' \<noteq> 1 \<and>
   read_upload_content sample_library ''e3Rvd25zfQ=='' = Inl ValueError"
proof -
  have h1: "CHR '','' \<notin> set ''data:application/json;base64'' \<and> CHR '','' \<notin> set ''e3Rvd25zfQ==''"
    by simp
  have h2: "count_list ''e3Rvd25zfQ=='' CHR '','' \<noteq> 1"
    by simp
  have d: "(case b64decode sample_library ''e3Rvd25zfQ=='' of
              Inl e \<Rightarrow> Inl e | Inr bytes \<Rightarrow> decode_utf8 sample_library bytes) = Inr ''{towns}''"
    by (simp add: sample_library_def)
  from upload_one_separator [of "''data:application/json;base64''" "''e3Rvd25zfQ==''"
         sample_library "''e3Rvd25zfQ==''"] h1 h2 d
  show ?thesis by simp
qed

lemma load_geojson_geo_json_obj:
  "geo_json_obj (snd (load_geojson L s inp_path upload_content)) = geo_json_obj s"
  by (simp add: load_geojson_def gp_read_file_def Let_def split: option.splits sum.splits prod.splits)

lemma create_columns_after:
  assumes "geojson_file \<noteq> None \<or> upload_content \<noteq> None"
  shows "\<exists>out. fst (create_columns L s geojson_file upload_content triggered_id) = Inr out \<and>
           column1_options out
             = columns (geo_json_obj (snd (create_columns L s geojson_file upload_content triggered_id))) \<and>
           reset_button_disabled out
             = (data_frame (geo_json_obj (snd (create_columns L s geojson_file upload_content triggered_id))) = None) \<and>
           save_button_disabled out = reset_button_disabled out"
proof -
  define pre where "pre =
    (if triggered_id = Some load_button \<or> upload_content \<noteq> None then
                  (let (geojson_file0, upload_content0) =
                         (if triggered_id = Some load_button then (geojson_file, None)
                          else (None, upload_content));
                       s0 = s\<lparr>geo_json_obj := \<lparr>data_frame = None\<rparr>\<rparr>
                   in case load_geojson L s0 geojson_file0 upload_content0 of
                        (Inr df, s') \<Rightarrow>
                          (geojson_file0, [], s'\<lparr>geo_json_obj := \<lparr>data_frame = Some df\<rparr>\<rparr>)
                      | (Inl error, s') \<Rightarrow>
                          (geojson_file0, ''Error: Could not load data content'',
                           s'\<lparr>error_log := error_log s' @ [error]\<rparr>))
                else (geojson_file, [], s))"
  obtain g m s1 where pre: "pre = (g, m, s1)" by (cases pre)
  obtain v where v: "to_viewbox L (geo_json_obj s1) = Inr v"
    using to_viewbox_never_raises by blast
  have run: "create_columns L s geojson_file upload_content triggered_id =
     (Inr \<lparr>column1_options = columns (geo_json_obj s1),
            loading1_children = P m (Some ''load-status'') [(''color'', ''red'')],
            table_box_children = v,
            reset_button_disabled = (data_frame (geo_json_obj s1) = None),
            save_button_disabled = (data_frame (geo_json_obj s1) = None),
            geojson_file_value = (case g of None \<Rightarrow> [] | Some f \<Rightarrow> f),
            graph_box_children = [Graph ''graph'' (clear_fig None default_text)]\<rparr>, s1)"
    using assms pre v unfolding create_columns_def pre_def [symmetric]
    by (cases "data_frame (geo_json_obj s1)") (auto simp add: columns_def)
  show ?thesis unfolding run by simp
qed

lemma create_columns_state_load_button:
  "snd (create_columns L s (Some url) upload_content (Some load_button))
     = (case load_geojson L (s\<lparr>geo_json_obj := \<lparr>data_frame = None\<rparr>\<rparr>) (Some url) None of
          (Inr df, s') \<Rightarrow> s'\<lparr>geo_json_obj := \<lparr>data_frame = Some df\<rparr>\<rparr>
        | (Inl error, s') \<Rightarrow> s'\<lparr>error_log := error_log s' @ [error]\<rparr>)"
proof -
  obtain r s' where l: "load_geojson L (s\<lparr>geo_json_obj := \<lparr>data_frame = None\<rparr>\<rparr>) (Some url) None = (r, s')"
    by (cases "load_geojson L (s\<lparr>geo_json_obj := \<lparr>data_frame = None\<rparr>\<rparr>) (Some url) None")
  obtain v where v: "to_viewbox L (geo_json_obj (case r of Inr df \<Rightarrow> s'\<lparr>geo_json_obj := \<lparr>data_frame = Some df\<rparr>\<rparr>
        | Inl error \<Rightarrow> s'\<lparr>error_log := error_log s' @ [error]\<rparr>)) = Inr v"
    using to_viewbox_never_raises by blast
  show ?thesis
    using l v by (cases r) (simp_all add: create_columns_def Let_def split: option.splits)
qed

lemma create_columns_document_load_button:
  "data_frame (geo_json_obj (snd (create_columns L s (Some url) upload_content (Some load_button))))
     = (case fst (load_geojson L (s\<lparr>geo_json_obj := \<lparr>data_frame = None\<rparr>\<rparr>) (Some url) None) of
          Inl e \<Rightarrow> None | Inr df \<Rightarrow> Some df)"
  using load_geojson_geo_json_obj [of L "s\<lparr>geo_json_obj := \<lparr>data_frame = None\<rparr>\<rparr>" "Some url" None]
  by (auto simp add: create_columns_state_load_button split: prod.splits sum.splits)

lemma load_geojson_path_result:
  "fst (load_geojson L s (Some url) None)
     = (case urlparse L (str_strip url) of
          Inl e \<Rightarrow> Inl e
        | Inr (scheme, netloc) \<Rightarrow>
            if netloc = [] \<and> scheme = []
            then (case expanduser_absolute L (str_strip url) of
                    Inl e \<Rightarrow> Inl e
                  | Inr path \<Rightarrow> read_file L (Str path))
            else read_file L (Str (str_strip url)))"
  by (simp add: load_geojson_def gp_read_file_def Let_def split: sum.splits prod.splits)

lemma load_geojson_upload_result:
  "fst (load_geojson L s None (Some payload))
     = (case read_upload_content L payload of
          Inl e \<Rightarrow> Inl e
        | Inr decoded \<Rightarrow> read_file L (StringIO decoded))"
  by (simp add: load_geojson_def gp_read_file_def split: sum.splits)

lemma create_columns_document_after_button:
  "data_frame (geo_json_obj (snd (create_columns L s (Some url) (Some payload) (Some load_button))))
     = (case urlparse L (str_strip url) of
          Inl e \<Rightarrow> None
        | Inr (scheme, netloc) \<Rightarrow>
            if netloc = [] \<and> scheme = []
            then (case expanduser_absolute L (str_strip url) of
                    Inl e \<Rightarrow> None
                  | Inr path \<Rightarrow>
                      (case read_file L (Str path) of Inl e \<Rightarrow> None | Inr df \<Rightarrow> Some df))
            else (case read_file L (Str (str_strip url)) of Inl e \<Rightarrow> None | Inr df \<Rightarrow> Some df))"
  by (simp add: create_columns_document_load_button load_geojson_path_result
           split: sum.splits prod.splits)

lemma create_columns_document_after_upload:
  "data_frame (geo_json_obj (snd (create_columns L s (Some url) (Some payload) (Some upload))))
     = (case read_upload_content L payload of
          Inl e \<Rightarrow> None
        | Inr decoded \<Rightarrow>
            (case read_file L (StringIO decoded) of Inl e \<Rightarrow> None | Inr df \<Rightarrow> Some df))"
proof -
  have "data_frame (geo_json_obj (snd (create_columns L s (Some url) (Some payload) (Some upload))))
     = (case fst (load_geojson L (s\<lparr>geo_json_obj := \<lparr>data_frame = None\<rparr>\<rparr>) None (Some payload)) of
          Inl e \<Rightarrow> None | Inr df \<Rightarrow> Some df)"
    using load_geojson_geo_json_obj [of L "s\<lparr>geo_json_obj := \<lparr>data_frame = None\<rparr>\<rparr>" None "Some payload"]
    by (auto simp add: create_columns_def Let_def split: prod.splits sum.splits option.splits)
  then show ?thesis
    by (simp add: load_geojson_upload_result split: sum.splits)
qed

text \<open>
  Claim C5. With both the URL text and an upload payload present, a load-button event
  runs as if the payload were absent: the document afterwards is the data set that
  \<open>gp.read_file\<close> returns for the path or URL resolved from the URL text (no document
  when the resolution or the read raises), and that path or URL is the one read. An
  upload event runs as if the URL text were absent: the document afterwards is the data
  set that \<open>gp.read_file\<close> returns for the decoded payload (no document when the
  decoding or the read raises), and the decoded text is the one read.
\<close>

theorem create_columns_triggering_input:
  "create_columns L s (Some url) (Some payload) (Some load_button)
     = create_columns L s (Some url) None (Some load_button) \<and>
   create_columns L s (Some url) (Some payload) (Some upload)
     = create_columns L s None (Some payload) (Some upload) \<and>
   data_frame (geo_json_obj (snd (create_columns L s (Some url) (Some payload) (Some load_button))))
     = (case urlparse L (str_strip url) of
          Inl e \<Rightarrow> None
        | Inr (scheme, netloc) \<Rightarrow>
            if netloc = [] \<and> scheme = []
            then (case expanduser_absolute L (str_strip url) of
                    Inl e \<Rightarrow> None
                  | Inr path \<Rightarrow>
                      (case read_file L (Str path) of Inl e \<Rightarrow> None | Inr df \<Rightarrow> Some df))
            else (case read_file L (Str (str_strip url)) of Inl e \<Rightarrow> None | Inr df \<Rightarrow> Some df)) \<and>
   data_frame (geo_json_obj (snd (create_columns L s (Some url) (Some payload) (Some upload))))
     = (case read_upload_content L payload of
          Inl e \<Rightarrow> None
        | Inr decoded \<Rightarrow>
            (case read_file L (StringIO decoded) of Inl e \<Rightarrow> None | Inr df \<Rightarrow> Some df)) \<and>
   read_file_calls (snd (create_columns L s (Some url) (Some payload) (Some load_button)))
     = (case urlparse L (str_strip url) of
          Inl e \<Rightarrow> read_file_calls s
        | Inr (scheme, netloc) \<Rightarrow>
            if netloc = [] \<and> scheme = []
            then (case expanduser_absolute L (str_strip url) of
                    Inl e \<Rightarrow> read_file_calls s
                  | Inr path \<Rightarrow> read_file_calls s @ [Str path])
            else read_file_calls s @ [Str (str_strip url)]) \<and>
   read_file_calls (snd (create_columns L s (Some url) (Some payload) (Some upload)))
     = (case read_upload_content L payload of
          Inl e \<Rightarrow> read_file_calls s
        | Inr txt \<Rightarrow> read_file_calls s @ [StringIO txt])"
proof (intro conjI)
  show "create_columns L s (Some url) (Some payload) (Some load_button)
     = create_columns L s (Some url) None (Some load_button)"
    by (simp add: create_columns_def)
  show "create_columns L s (Some url) (Some payload) (Some upload)
     = create_columns L s None (Some payload) (Some upload)"
    by (simp add: create_columns_def)
  show "data_frame (geo_json_obj (snd (create_columns L s (Some url) (Some payload) (Some load_button))))
     = (case urlparse L (str_strip url) of
          Inl e \<Rightarrow> None
        | Inr (scheme, netloc) \<Rightarrow>
            if netloc = [] \<and> scheme = []
            then (case expanduser_absolute L (str_strip url) of
                    Inl e \<Rightarrow> None
                  | Inr path \<Rightarrow>
                      (case read_file L (Str path) of Inl e \<Rightarrow> None | Inr df \<Rightarrow> Some df))
            else (case read_file L (Str (str_strip url)) of Inl e \<Rightarrow> None | Inr df \<Rightarrow> Some df))"
    by (rule create_columns_document_after_button)
  show "data_frame (geo_json_obj (snd (create_columns L s (Some url) (Some payload) (Some upload))))
     = (case read_upload_content L payload of
          Inl e \<Rightarrow> None
        | Inr decoded \<Rightarrow>
            (case read_file L (StringIO decoded) of Inl e \<Rightarrow> None | Inr df \<Rightarrow> Some df))"
    by (rule create_columns_document_after_upload)
  show "read_file_calls (snd (create_columns L s (Some url) (Some payload) (Some load_button)))
     = (case urlparse L (str_strip url) of
          Inl e \<Rightarrow> read_file_calls s
        | Inr (scheme, netloc) \<Rightarrow>
            if netloc = [] \<and> scheme = []
            then (case expanduser_absolute L (str_strip url) of
                    Inl e \<Rightarrow> read_file_calls s
                  | Inr path \<Rightarrow> read_file_calls s @ [Str path])
            else read_file_calls s @ [Str (str_strip url)])"
    by (auto simp add: create_columns_def load_geojson_def gp_read_file_def Let_def
             split: prod.splits sum.splits option.splits)
  show "read_file_calls (snd (create_columns L s (Some url) (Some payload) (Some upload)))
     = (case read_upload_content L payload of
          Inl e \<Rightarrow> read_file_calls s
        | Inr txt \<Rightarrow> read_file_calls s @ [StringIO txt])"
    by (auto simp add: create_columns_def load_geojson_def gp_read_file_def Let_def
             split: prod.splits sum.splits option.splits)
qed

lemma sample_read_upload:
  "read_upload_content sample_library ''data:application/json;base64,e3Rvd25zfQ=='' = Inr ''{towns}''"
  by (simp add: read_upload_content_def sample_library_def)

lemma sample_resolve:
  "str_strip ''towns.geojson'' = ''towns.geojson'' \<and>
   urlparse sample_library ''towns.geojson'' = Inr ([], []) \<and>
   expanduser_absolute sample_library ''towns.geojson'' = Inr ''/home/user/towns.geojson''"
  by (simp add: str_strip_def isspace_def sample_library_def)

lemma sample_read_file:
  "read_file sample_library (Str ''/home/user/towns.geojson'') = Inr sample_frame \<and>
   read_file sample_library (StringIO ''{towns}'') = Inr sample_frame"
  by (simp add: sample_library_def)

theorem create_columns_triggering_input_witness:
  "data_frame (geo_json_obj (snd (create_columns sample_library initial_state
       (Some ''towns.geojson'') (Some ''data:application/json;base64,e3Rvd25zfQ=='')
       (Some load_button)))) = Some sample_frame \<and>
   data_frame (geo_json_obj (snd (create_columns sample_library initial_state
       (Some ''towns.geojson'') (Some ''data:application/json;base64,e3Rvd25zfQ=='')
       (Some upload)))) = Some sample_frame \<and>
   read_file_calls (snd (create_columns sample_library initial_state (Some ''towns.geojson'')
       (Some ''data:application/json;base64,e3Rvd25zfQ=='') (Some load_button)))
     = [Str ''/home/user/towns.geojson''] \<and>
   read_file_calls (snd (create_columns sample_library initial_state (Some ''towns.geojson'')
       (Some ''data:application/json;base64,e3Rvd25zfQ=='') (Some upload)))
     = [StringIO ''{towns}'']"
proof -
  have e: "read_file_calls initial_state = []"
    by (simp add: initial_state_def)
  note t = create_columns_triggering_input [of sample_library initial_state "''towns.geojson''"
         "''data:application/json;base64,e3Rvd25zfQ==''"]
  from t have a: "read_file_calls (snd (create_columns sample_library initial_state
       (Some ''towns.geojson'') (Some ''data:application/json;base64,e3Rvd25zfQ=='')
       (Some load_button)))
     = (case urlparse sample_library (str_strip ''towns.geojson'') of
          Inl e \<Rightarrow> read_file_calls initial_state
        | Inr (scheme, netloc) \<Rightarrow>
            if netloc = [] \<and> scheme = []
            then (case expanduser_absolute sample_library (str_strip ''towns.geojson'') of
                    Inl e \<Rightarrow> read_file_calls initial_state
                  | Inr path \<Rightarrow> read_file_calls initial_state @ [Str path])
            else read_file_calls initial_state @ [Str (str_strip ''towns.geojson'')])"
    by blast
  from t have b: "read_file_calls (snd (create_columns sample_library initial_state
       (Some ''towns.geojson'') (Some ''data:application/json;base64,e3Rvd25zfQ=='')
       (Some upload)))
     = (case read_upload_content sample_library ''data:application/json;base64,e3Rvd25zfQ=='' of
          Inl e \<Rightarrow> read_file_calls initial_state
        | Inr txt \<Rightarrow> read_file_calls initial_state @ [StringIO txt])"
    by blast
  from t have c: "data_frame (geo_json_obj (snd (create_columns sample_library initial_state
       (Some ''towns.geojson'') (Some ''data:application/json;base64,e3Rvd25zfQ=='')
       (Some load_button))))
     = (case urlparse sample_library (str_strip ''towns.geojson'') of
          Inl e \<Rightarrow> None
        | Inr (scheme, netloc) \<Rightarrow>
            if netloc = [] \<and> scheme = []
            then (case expanduser_absolute sample_library (str_strip ''towns.geojson'') of
                    Inl e \<Rightarrow> None
                  | Inr path \<Rightarrow>
                      (case read_file sample_library (Str path) of
                         Inl e \<Rightarrow> None | Inr df \<Rightarrow> Some df))
            else (case read_file sample_library (Str (str_strip ''towns.geojson'')) of
                    Inl e \<Rightarrow> None | Inr df \<Rightarrow> Some df))"
    by blast
  from t have d: "data_frame (geo_json_obj (snd (create_columns sample_library initial_state
       (Some ''towns.geojson'') (Some ''data:application/json;base64,e3Rvd25zfQ=='')
       (Some upload))))
     = (case read_upload_content sample_library ''data:application/json;base64,e3Rvd25zfQ=='' of
          Inl e \<Rightarrow> None
        | Inr decoded \<Rightarrow>
            (case read_file sample_library (StringIO decoded) of
               Inl e \<Rightarrow> None | Inr df \<Rightarrow> Some df))"
    by blast
  show ?thesis
    unfolding a b c d by (simp add: sample_read_upload sample_resolve sample_read_file e)
qed

lemma sample_load_path:
  "load_geojson sample_library s (Some ''towns.geojson'') None
     = (Inr sample_frame, s\<lparr>read_file_calls := read_file_calls s @ [Str ''/home/user/towns.geojson'']\<rparr>)"
  by (simp add: load_geojson_def gp_read_file_def str_strip_def isspace_def sample_library_def)

lemma sample_after_load:
  "snd (create_columns sample_library initial_state (Some ''towns.geojson'') None (Some load_button))
     = sample_loaded\<lparr>read_file_calls := [Str ''/home/user/towns.geojson'']\<rparr>"
  by (simp add: create_columns_state_load_button sample_load_path sample_loaded_def initial_state_def)

lemma sample_columns: "filter (\<lambda>c. c \<noteq> ''geometry'') (df_columns sample_frame) = [''name'', ''pop'']"
  by (simp add: sample_frame_def)

text \<open>
  Claim C9. Whenever the load handler runs with some input present and a document is
  loaded when it returns (a successful load), the handler raises nothing and the
  dropdown options are the labels of the data set other than \<open>geometry\<close>, in the order
  of the data set; the \<open>columns\<close> accessor of the document holder gives the same list.
\<close>

theorem column_list_after_load:
  assumes "geojson_file \<noteq> None \<or> upload_content \<noteq> None"
      and "data_frame (geo_json_obj (snd (create_columns L s geojson_file upload_content triggered_id)))
             = Some df"
  shows "\<exists>out. fst (create_columns L s geojson_file upload_content triggered_id) = Inr out \<and>
           column1_options out = filter (\<lambda>c. c \<noteq> ''geometry'') (df_columns df) \<and>
           column1_options out
             = columns (geo_json_obj (snd (create_columns L s geojson_file upload_content triggered_id))) \<and>
           set (column1_options out) = set (df_columns df) - {''geometry''} \<and>
           subseq (column1_options out) (df_columns df)"
proof -
  from create_columns_after [OF assms(1)]
  obtain out where out: "fst (create_columns L s geojson_file upload_content triggered_id) = Inr out"
    and opts: "column1_options out
             = columns (geo_json_obj (snd (create_columns L s geojson_file upload_content triggered_id)))"
    by blast
  have c: "columns (geo_json_obj (snd (create_columns L s geojson_file upload_content triggered_id)))
             = filter (\<lambda>c. c \<noteq> ''geometry'') (df_columns df)"
    using assms(2) by (simp add: columns_def)
  have "set (filter (\<lambda>c. c \<noteq> ''geometry'') (df_columns df)) = set (df_columns df) - {''geometry''}"
    by auto
  with out opts c show ?thesis by simp
qed

theorem column_list_after_load_witness:
  "Some ''towns.geojson'' \<noteq> (None :: string option) \<and>
   data_frame (geo_json_obj (snd (create_columns sample_library initial_state
       (Some ''towns.geojson'') None (Some load_button)))) = Some sample_frame \<and>
   (\<exists>out. fst (create_columns sample_library initial_state (Some ''towns.geojson'') None
               (Some load_button)) = Inr out \<and>
          column1_options out = [''name'', ''pop''])"
proof -
  have h1: "Some ''towns.geojson'' \<noteq> None \<or> (None :: string option) \<noteq> None"
    by simp
  have h2: "data_frame (geo_json_obj (snd (create_columns sample_library initial_state
       (Some ''towns.geojson'') None (Some load_button)))) = Some sample_frame"
    by (simp add: sample_after_load sample_loaded_def)
  from column_list_after_load [OF h1 h2] h1 h2 sample_columns show ?thesis
    by auto
qed

lemma create_columns_no_load:
  assumes "triggered_id \<noteq> Some load_button" and "to_viewbox L (geo_json_obj s) = Inr v"
  shows "create_columns L s (Some url) None triggered_id =
     (Inr \<lparr>column1_options = columns (geo_json_obj s),
            loading1_children = P [] (Some ''load-status'') [(''color'', ''red'')],
            table_box_children = v,
            reset_button_disabled = (data_frame (geo_json_obj s) = None),
            save_button_disabled = (data_frame (geo_json_obj s) = None),
            geojson_file_value = url,
            graph_box_children = [Graph ''graph'' (clear_fig None default_text)]\<rparr>, s)"
  using assms
  by (cases "data_frame (geo_json_obj s)") (simp_all add: create_columns_def columns_def)

lemma create_columns_nothing:
  assumes "to_viewbox L (geo_json_obj s) = Inr v"
  shows "create_columns L s None None triggered_id =
     (Inr \<lparr>column1_options = [],
            loading1_children = P [] (Some ''load-status'') [],
            table_box_children = v,
            reset_button_disabled = True,
            save_button_disabled = True,
            geojson_file_value = [],
            graph_box_children = [Graph ''graph'' (clear_fig None default_text)]\<rparr>, s)"
  using assms by (simp add: create_columns_def)

text \<open>
  Claim C2, as stated: a reset event after a successful load clears the document and
  gives the outputs of the never-loaded state. It does not: after the sample file is
  loaded from its path, a reset event with the URL field still filled leaves the
  document in place, lists its columns and enables both buttons.
\<close>

theorem reset_counterexample:
  "snd (create_columns sample_library initial_state (Some ''towns.geojson'') None (Some load_button))
     = sample_loaded\<lparr>read_file_calls := [Str ''/home/user/towns.geojson'']\<rparr> \<and>
   data_frame (geo_json_obj (snd (create_columns sample_library
       (sample_loaded\<lparr>read_file_calls := [Str ''/home/user/towns.geojson'']\<rparr>)
       (Some ''towns.geojson'') None (Some reset_button)))) = Some sample_frame \<and>
   map_sum id column1_options (fst (create_columns sample_library
       (sample_loaded\<lparr>read_file_calls := [Str ''/home/user/towns.geojson'']\<rparr>)
       (Some ''towns.geojson'') None (Some reset_button))) = Inr [''name'', ''pop''] \<and>
   map_sum id reset_button_disabled (fst (create_columns sample_library
       (sample_loaded\<lparr>read_file_calls := [Str ''/home/user/towns.geojson'']\<rparr>)
       (Some ''towns.geojson'') None (Some reset_button))) = Inr False \<and>
   map_sum id save_button_disabled (fst (create_columns sample_library
       (sample_loaded\<lparr>read_file_calls := [Str ''/home/user/towns.geojson'']\<rparr>)
       (Some ''towns.geojson'') None (Some reset_button))) = Inr False"
proof -
  let ?S = "sample_loaded\<lparr>read_file_calls := [Str ''/home/user/towns.geojson'']\<rparr>"
  obtain v where v: "to_viewbox sample_library (geo_json_obj ?S) = Inr v"
    using to_viewbox_never_raises by blast
  have t: "Some reset_button \<noteq> Some load_button" by simp
  note run = create_columns_no_load [OF t v, of "''towns.geojson''"]
  have d: "data_frame (geo_json_obj sample_loaded) = Some sample_frame"
    by (simp add: sample_loaded_def)
  have c: "columns (geo_json_obj sample_loaded) = [''name'', ''pop'']"
    using d by (simp add: columns_def sample_columns)
  show ?thesis
    unfolding run by (simp add: sample_after_load d c)
qed

text \<open>
  Claim C2, amended. With a document loaded, a reset event never clears it. With no
  upload payload present nothing is loaded and the state is unchanged; the edit view is
  rebuilt from the stored document; with a URL text present the outputs list the
  document's columns and enable both buttons, and with the URL field null they are the
  empty list with both buttons disabled. With an upload payload present the event runs
  exactly as an upload event does.
\<close>

theorem reset_keeps_document:
  assumes "data_frame (geo_json_obj s) = Some df"
  shows "snd (create_columns L s geojson_file None (Some reset_button)) = s \<and>
         map_sum id column1_options (fst (create_columns L s (Some url) None (Some reset_button)))
           = Inr (filter (\<lambda>c. c \<noteq> ''geometry'') (df_columns df)) \<and>
         map_sum id reset_button_disabled (fst (create_columns L s (Some url) None (Some reset_button)))
           = Inr False \<and>
         map_sum id save_button_disabled (fst (create_columns L s (Some url) None (Some reset_button)))
           = Inr False \<and>
         map_sum id column1_options (fst (create_columns L s None None (Some reset_button))) = Inr [] \<and>
         map_sum id reset_button_disabled (fst (create_columns L s None None (Some reset_button)))
           = Inr True \<and>
         map_sum id save_button_disabled (fst (create_columns L s None None (Some reset_button)))
           = Inr True \<and>
         map_sum id table_box_children (fst (create_columns L s geojson_file None (Some reset_button)))
           = to_viewbox L (geo_json_obj s) \<and>
         create_columns L s geojson_file (Some payload) (Some reset_button)
           = create_columns L s geojson_file (Some payload) (Some upload)"
proof -
  obtain v where v: "to_viewbox L (geo_json_obj s) = Inr v"
    using to_viewbox_never_raises by blast
  have t: "Some reset_button \<noteq> Some load_button" by simp
  note a = create_columns_no_load [OF t v] and b = create_columns_nothing [OF v]
  have 1: "snd (create_columns L s geojson_file None (Some reset_button)) = s"
    by (cases geojson_file) (simp_all add: a b)
  have 2: "map_sum id table_box_children (fst (create_columns L s geojson_file None (Some reset_button)))
           = to_viewbox L (geo_json_obj s)"
    by (cases geojson_file) (simp_all add: a b v)
  have 3: "create_columns L s geojson_file (Some payload) (Some reset_button)
           = create_columns L s geojson_file (Some payload) (Some upload)"
    by (simp add: create_columns_def)
  from assms 1 2 3 show ?thesis
    by (simp add: a b columns_def)
qed

theorem reset_keeps_document_witness:
  "data_frame (geo_json_obj sample_loaded) = Some sample_frame \<and>
   snd (create_columns sample_library sample_loaded (Some ''towns.geojson'') None (Some reset_button))
     = sample_loaded \<and>
   map_sum id column1_options
     (fst (create_columns sample_library sample_loaded (Some ''towns.geojson'') None (Some reset_button)))
     = Inr [''name'', ''pop'']"
proof -
  have h: "data_frame (geo_json_obj sample_loaded) = Some sample_frame"
    by (simp add: sample_loaded_def)
  from reset_keeps_document [OF h, of sample_library "Some ''towns.geojson''" "''towns.geojson''"]
    h sample_columns
  show ?thesis by simp
qed

lemma cast_column_length:
  "cast_column L d c rows = Inr rows' \<Longrightarrow> length rows' = length rows"
  by (induction rows arbitrary: rows') (auto split: sum.splits)

lemma cast_column_other:
  "cast_column L d c rows = Inr rows' \<Longrightarrow> c' \<noteq> c \<Longrightarrow> map (\<lambda>r. r c') rows' = map (\<lambda>r. r c') rows"
  by (induction rows arbitrary: rows') (auto split: sum.splits)

lemma cast_columns_length:
  "cast_columns L dts cs rows = Inr rows' \<Longrightarrow> length rows' = length rows"
proof (induction cs arbitrary: rows)
  case Nil
  then show ?case by simp
next
  case (Cons c cs)
  then show ?case
    by (auto split: option.splits sum.splits dest: cast_column_length)
qed

lemma astype_rows:
  assumes "astype L frame dts = Inr frame'"
  shows "length (pd_rows frame') = length (pd_rows frame) \<and> pd_columns frame' = pd_columns frame"
  using assms
  by (auto simp add: astype_def split: if_splits sum.splits dest: cast_columns_length)

lemma DataFrame_rows: "length (pd_rows (DataFrame L table_data)) = length table_data"
  by (simp add: DataFrame_def Let_def)

lemma GeoDataFrame_fields:
  "df_crs (GeoDataFrame frame g c) = c \<and>
   df_geometry (GeoDataFrame frame g c)
     = (if pd_rows frame = [] then g
        else take (length (pd_rows frame)) g @ replicate (length (pd_rows frame) - length g) None) \<and>
   (pd_rows frame \<noteq> [] \<longrightarrow>
      (\<forall>c'. c' \<noteq> ''geometry'' \<longrightarrow>
         map (\<lambda>r. r c') (df_rows (GeoDataFrame frame g c)) = map (\<lambda>r. r c') (pd_rows frame)))"
  by (simp add: GeoDataFrame_def Let_def)

lemma save_data_written:
  assumes "data_frame (geo_json_obj s) = Some df"
      and "astype L (DataFrame L table_data) (dtypes (geo_json_obj s)) = Inr frame"
      and "''geometry'' \<in> set (df_columns df)"
  shows "save_data L s table_data table_columns
           = ((case to_file L (GeoDataFrame frame (df_geometry df) (df_crs df)) of
                 Inl e \<Rightarrow> Inl (Failure e)
               | Inr written \<Rightarrow>
                   Inr \<lparr>dl_content = written,
                        dl_filename = ''geojsonviewer-'' @ strftime_now L @ ''.geojson''\<rparr>),
              s\<lparr>to_file_calls := to_file_calls s @
                    [GeoDataFrame frame (df_geometry df) (df_crs df)]\<rparr>)"
  using assms by (simp add: save_data_def frame_geometry_def Let_def split: sum.splits)

lemma sample_dtypes:
  "dtypes (geo_json_obj sample_loaded) = [(''name'', ''object''), (''pop'', ''int64'')]"
  by (simp add: dtypes_def columns_def sample_loaded_def sample_frame_def dict_def)

lemma sample_astype_succeeds:
  "\<exists>frame. astype sample_library
             (DataFrame sample_library [[(''name'', StrV ''A''), (''pop'', IntV 3)]])
             [(''name'', ''object''), (''pop'', ''int64'')] = Inr frame"
  by (simp add: astype_def DataFrame_def sample_library_def)

lemma sample_astype_two_succeeds:
  "\<exists>frame. astype sample_library
             (DataFrame sample_library
                [[(''name'', StrV ''A''), (''pop'', IntV 4)], [(''name'', StrV ''Z''), (''pop'', IntV 5)]])
             [(''name'', ''object''), (''pop'', ''int64'')] = Inr frame"
  by (simp add: astype_def DataFrame_def sample_library_def)

lemma sample_document:
  "data_frame (geo_json_obj sample_loaded) = Some sample_frame \<and>
   ''geometry'' \<in> set (df_columns sample_frame) \<and>
   df_geometry sample_frame = [Some ''POINT (0 0)'', Some ''POINT (1 1)''] \<and>
   df_crs sample_frame = Some ''EPSG:4326'' \<and>
   to_file_calls sample_loaded = []"
  by (simp add: sample_loaded_def sample_frame_def initial_state_def)

text \<open>
  Claim C1, as stated: the data set written has the document's geometry column whatever
  the grid holds. It has not when the grid has another number of rows: the sample
  document has two rows, and a grid of one row is written with the first geometry only.
\<close>

theorem save_short_grid_counterexample:
  "data_frame (geo_json_obj sample_loaded) = Some sample_frame \<and>
   df_geometry sample_frame = [Some ''POINT (0 0)'', Some ''POINT (1 1)''] \<and>
   map df_geometry (to_file_calls (snd (save_data sample_library sample_loaded
          [[(''name'', StrV ''A''), (''pop'', IntV 3)]]
          [(''name'', ''name''), (''pop'', ''pop'')])))
     = [[Some ''POINT (0 0)'']]"
proof -
  let ?td = "[[(''name'', StrV ''A''), (''pop'', IntV 3)]]"
  obtain frame where fr: "astype sample_library (DataFrame sample_library ?td)
                            (dtypes (geo_json_obj sample_loaded)) = Inr frame"
    using sample_astype_succeeds by (auto simp add: sample_dtypes)
  have len: "length (pd_rows frame) = 1"
    using astype_rows [OF fr] by (simp add: DataFrame_rows)
  then have ne: "pd_rows frame \<noteq> []" by auto
  have d: "data_frame (geo_json_obj sample_loaded) = Some sample_frame"
    and m: "''geometry'' \<in> set (df_columns sample_frame)"
    using sample_document by simp_all
  have "map df_geometry (to_file_calls (snd (save_data sample_library sample_loaded ?td
          [(''name'', ''name''), (''pop'', ''pop'')])))
     = [[Some ''POINT (0 0)'']]"
    unfolding save_data_written [OF d fr m]
    using GeoDataFrame_fields [of frame "df_geometry sample_frame" "df_crs sample_frame"] len ne
    by (simp add: sample_document)
  then show ?thesis using sample_document by simp
qed

text \<open>
  Claim C1, amended. On a save event with a document loaded the handler leaves the
  document as it is and either raises before anything is written (the coercion of the
  grid fails, or the document has no geometry column) or writes exactly one data set and
  returns the writer's text for it, or the writer's error. That data set has the
  reference system of the document, and its geometry column is the document's, aligned
  to the grid by row number: row \<open>i\<close> carries the document's geometry \<open>i\<close>, a grid row
  beyond the document's last row carries none, the document's geometries beyond the
  grid's last row are dropped, and an empty grid takes them all. With as many grid rows
  as document rows it is exactly the document's geometry column. No cell of the grid
  reaches the geometry column; the attribute cells are those of the coerced grid.
\<close>

theorem save_geometry_aligned:
  assumes "data_frame (geo_json_obj s) = Some df"
  shows "geo_json_obj (snd (save_data L s table_data table_columns)) = geo_json_obj s \<and>
    (case astype L (DataFrame L table_data) (dtypes (geo_json_obj s)) of
       Inl e \<Rightarrow> save_data L s table_data table_columns = (Inl (Failure e), s)
     | Inr frame \<Rightarrow>
         if ''geometry'' \<in> set (df_columns df) then
           (\<exists>gdf. save_data L s table_data table_columns
                    = ((case to_file L gdf of
                          Inl e \<Rightarrow> Inl (Failure e)
                        | Inr written \<Rightarrow>
                            Inr \<lparr>dl_content = written,
                                 dl_filename = ''geojsonviewer-'' @ strftime_now L @ ''.geojson''\<rparr>),
                       s\<lparr>to_file_calls := to_file_calls s @ [gdf]\<rparr>) \<and>
                  df_crs gdf = df_crs df \<and>
                  df_geometry gdf
                    = (if table_data = [] then df_geometry df
                       else take (length table_data) (df_geometry df) @
                            replicate (length table_data - length (df_geometry df)) None) \<and>
                  (length table_data = length (df_geometry df) \<longrightarrow>
                     df_geometry gdf = df_geometry df) \<and>
                  (table_data \<noteq> [] \<longrightarrow>
                     (\<forall>c. c \<noteq> ''geometry'' \<longrightarrow>
                        map (\<lambda>r. r c) (df_rows gdf) = map (\<lambda>r. r c) (pd_rows frame))))
         else save_data L s table_data table_columns = (Inl (Failure KeyError), s))"
proof (cases "astype L (DataFrame L table_data) (dtypes (geo_json_obj s))")
  case (Inl e)
  with assms show ?thesis by (simp add: save_data_def)
next
  case (Inr frame)
  note fr = Inr
  have len: "length (pd_rows frame) = length table_data"
    using astype_rows [OF fr] by (simp add: DataFrame_rows)
  show ?thesis
  proof (cases "''geometry'' \<in> set (df_columns df)")
    case False
    with assms fr show ?thesis by (simp add: save_data_def frame_geometry_def)
  next
    case True
    let ?gdf = "GeoDataFrame frame (df_geometry df) (df_crs df)"
    have run: "save_data L s table_data table_columns
                 = ((case to_file L ?gdf of
                       Inl e \<Rightarrow> Inl (Failure e)
                     | Inr written \<Rightarrow>
                         Inr \<lparr>dl_content = written,
                              dl_filename = ''geojsonviewer-'' @ strftime_now L @ ''.geojson''\<rparr>),
                    s\<lparr>to_file_calls := to_file_calls s @ [?gdf]\<rparr>)"
      by (rule save_data_written [OF assms fr True])
    have e: "(pd_rows frame = []) = (table_data = [])"
      using len by (metis length_0_conv)
    have geo: "df_geometry ?gdf
                 = (if table_data = [] then df_geometry df
                    else take (length table_data) (df_geometry df) @
                         replicate (length table_data - length (df_geometry df)) None)"
      using GeoDataFrame_fields [of frame "df_geometry df" "df_crs df"] len e by simp
    have same: "length table_data = length (df_geometry df) \<longrightarrow> df_geometry ?gdf = df_geometry df"
      using geo by simp
    have cells: "table_data \<noteq> [] \<longrightarrow>
                   (\<forall>c. c \<noteq> ''geometry'' \<longrightarrow>
                      map (\<lambda>r. r c) (df_rows ?gdf) = map (\<lambda>r. r c) (pd_rows frame))"
      using GeoDataFrame_fields [of frame "df_geometry df" "df_crs df"] e by simp
    have crs: "df_crs ?gdf = df_crs df"
      using GeoDataFrame_fields [of frame "df_geometry df" "df_crs df"] by simp
    have "\<exists>gdf. save_data L s table_data table_columns
                    = ((case to_file L gdf of
                          Inl e \<Rightarrow> Inl (Failure e)
                        | Inr written \<Rightarrow>
                            Inr \<lparr>dl_content = written,
                                 dl_filename = ''geojsonviewer-'' @ strftime_now L @ ''.geojson''\<rparr>),
                       s\<lparr>to_file_calls := to_file_calls s @ [gdf]\<rparr>) \<and>
                  df_crs gdf = df_crs df \<and>
                  df_geometry gdf
                    = (if table_data = [] then df_geometry df
                       else take (length table_data) (df_geometry df) @
                            replicate (length table_data - length (df_geometry df)) None) \<and>
                  (length table_data = length (df_geometry df) \<longrightarrow>
                     df_geometry gdf = df_geometry df) \<and>
                  (table_data \<noteq> [] \<longrightarrow>
                     (\<forall>c. c \<noteq> ''geometry'' \<longrightarrow>
                        map (\<lambda>r. r c) (df_rows gdf) = map (\<lambda>r. r c) (pd_rows frame)))"
      using run crs geo same cells by blast
    moreover have "geo_json_obj (snd (save_data L s table_data table_columns)) = geo_json_obj s"
      unfolding run by simp
    ultimately show ?thesis
      using fr True by simp
  qed
qed

theorem save_geometry_aligned_witness:
  "data_frame (geo_json_obj sample_loaded) = Some sample_frame \<and>
   fst (save_data sample_library sample_loaded
          [[(''name'', StrV ''A''), (''pop'', IntV 4)], [(''name'', StrV ''Z''), (''pop'', IntV 5)]]
          [(''name'', ''name''), (''pop'', ''pop'')])
     = Inr \<lparr>dl_content = ''{FeatureCollection}'',
            dl_filename = ''geojsonviewer-20221001T1200.geojson''\<rparr> \<and>
   map df_geometry (to_file_calls (snd (save_data sample_library sample_loaded
          [[(''name'', StrV ''A''), (''pop'', IntV 4)], [(''name'', StrV ''Z''), (''pop'', IntV 5)]]
          [(''name'', ''name''), (''pop'', ''pop'')])))
     = [[Some ''POINT (0 0)'', Some ''POINT (1 1)'']] \<and>
   map df_crs (to_file_calls (snd (save_data sample_library sample_loaded
          [[(''name'', StrV ''A''), (''pop'', IntV 4)], [(''name'', StrV ''Z''), (''pop'', IntV 5)]]
          [(''name'', ''name''), (''pop'', ''pop'')])))
     = [Some ''EPSG:4326'']"
proof -
  let ?td = "[[(''name'', StrV ''A''), (''pop'', IntV 4)], [(''name'', StrV ''Z''), (''pop'', IntV 5)]]"
  let ?tc = "[(''name'', ''name''), (''pop'', ''pop'')]"
  have d: "data_frame (geo_json_obj sample_loaded) = Some sample_frame"
    and m: "''geometry'' \<in> set (df_columns sample_frame)"
    using sample_document by simp_all
  obtain frame where fr: "astype sample_library (DataFrame sample_library ?td)
                            (dtypes (geo_json_obj sample_loaded)) = Inr frame"
    using sample_astype_two_succeeds by (auto simp add: sample_dtypes)
  have w: "\<And>gdf. to_file sample_library gdf = Inr ''{FeatureCollection}''"
    and n: "strftime_now sample_library = ''20221001T1200''"
    by (simp_all add: sample_library_def)
  from save_geometry_aligned [OF d, of sample_library ?td ?tc] fr m
  obtain gdf where
    run: "save_data sample_library sample_loaded ?td ?tc
            = ((case to_file sample_library gdf of
                  Inl e \<Rightarrow> Inl (Failure e)
                | Inr written \<Rightarrow>
                    Inr \<lparr>dl_content = written,
                         dl_filename = ''geojsonviewer-'' @ strftime_now sample_library @ ''.geojson''\<rparr>),
               sample_loaded\<lparr>to_file_calls := to_file_calls sample_loaded @ [gdf]\<rparr>)"
    and crs: "df_crs gdf = df_crs sample_frame"
    and same: "length ?td = length (df_geometry sample_frame) \<longrightarrow>
                 df_geometry gdf = df_geometry sample_frame"
    by auto
  from same have geo: "df_geometry gdf = df_geometry sample_frame"
    by (simp add: sample_document)
  show ?thesis
    unfolding run by (simp add: d w n crs geo sample_document)
qed

end
